theory Spec2Isabelle
  imports Main "HOL-Library.Multiset"
begin

section \<open>Blog storage and editor logic with optional GitHub sync (blog.js)\<close>

text \<open>
  A shallow embedding of \<^verbatim>\<open>src/blog.js\<close>. Every function below carries the name
  of the JavaScript function it embeds. JavaScript strings are HOL strings (characters
  are the code units below 256), epoch milliseconds are integers, an exception is the
  \<open>Inl\<close> of a sum, and the browser's local storage, the editor widgets and the remote
  repository are passed explicitly as state.
\<close>

subsection \<open>Records\<close>

text \<open>
  The object \<^verbatim>\<open>gatherPostData\<close> builds, and the reduced object \<^verbatim>\<open>saveToGitHub\<close>
  puts into an index. The field \<^verbatim>\<open>id\<close> is written \<open>id'\<close>.
\<close>

record content_record =
  id' :: string
  title :: string
  content :: string
  cover :: string
  excerpt :: string
  updatedAt :: int
  createdAt :: int

record index_entry =
  m_id :: string
  m_title :: string
  m_excerpt :: string
  m_cover :: string
  m_updatedAt :: int
  m_createdAt :: int

record gh_settings =
  owner :: string
  repo :: string
  branch :: string
  token :: string

subsection \<open>JavaScript values and JSON texts\<close>

text \<open>
  What the code does with the result of \<^verbatim>\<open>JSON.parse\<close> depends on three things only:
  whether the value is falsy (\<^verbatim>\<open>null\<close>, \<^verbatim>\<open>false\<close>, \<^verbatim>\<open>0\<close>, \<^verbatim>\<open>""\<close>), whether it has the
  shape the caller expects (\<open>Val\<close>: an array of records, a settings object, ...), or
  whether it is some other truthy value (\<open>Other\<close>: for a caller that expects an array, a
  number, a string, \<^verbatim>\<open>true\<close> or an object). A text is either not JSON at all
  (\<open>Malformed\<close>, which includes the empty text) or the text of a value. Writing a
  value with \<^verbatim>\<open>JSON.stringify\<close> and parsing it again gives the value back.
\<close>

datatype 'a js_value = Falsy | Other | Val 'a

datatype 'a json_text = Malformed | Json "'a js_value"

datatype error = TypeError | SyntaxError | NetworkError | HttpError nat

definition JSON_parse :: "'a json_text \<Rightarrow> error + 'a js_value" where
  "JSON_parse t = (case t of Malformed \<Rightarrow> Inl SyntaxError | Json v \<Rightarrow> Inr v)"

text \<open>Calling an array method (\<^verbatim>\<open>findIndex\<close>, \<^verbatim>\<open>filter\<close>, \<^verbatim>\<open>find\<close>) on a value that is
  not an array raises a \<^verbatim>\<open>TypeError\<close>.\<close>

definition as_array :: "'a list js_value \<Rightarrow> error + 'a list" where
  "as_array v = (case v of Val a \<Rightarrow> Inr a | Falsy \<Rightarrow> Inl TypeError | Other \<Rightarrow> Inl TypeError)"

subsection \<open>What an index file may hold\<close>

text \<open>
  The index is read back from the repository, so its array may hold anything JSON
  allows. An element is \<^verbatim>\<open>null\<close> (reading a property of it raises a \<^verbatim>\<open>TypeError\<close>) or a
  value whose properties can be read. Of such a value the code reads two properties.
  \<^verbatim>\<open>id\<close> is compared with a string by \<^verbatim>\<open>!==\<close>: it is that string or it differs from every
  string (\<open>None\<close>: there is no \<^verbatim>\<open>id\<close>, or it is no string). \<^verbatim>\<open>updatedAt\<close> is read as
  \<^verbatim>\<open>(x.updatedAt||0)\<close> and subtracted: it is missing or falsy (\<open>NoTime\<close>, read as 0), a
  number (\<open>Time\<close>), or a truthy value that is no number (\<open>NotANumber\<close>: a string of
  letters, an object), with which the subtraction gives \<^verbatim>\<open>NaN\<close>. A value that converts to
  a number (a string of digits, \<^verbatim>\<open>true\<close>) behaves as that number does. Numbers are taken as
  integers: the sort uses the sign of the difference only, which is the order of the two
  numbers. The other properties are carried through and never read; they are kept by
  name, as the texts and numbers \<^verbatim>\<open>saveToGitHub\<close> writes. \<open>stored\<close> is what the object
  built by \<^verbatim>\<open>saveToGitHub\<close> is once it stands in the array.
\<close>

datatype timestamp = NoTime | Time int | NotANumber

datatype property = Text string | Number int

record stored_entry =
  s_id :: "string option"
  s_updatedAt :: timestamp
  s_others :: "(string \<times> property) list"

datatype index_item = NullItem | Item stored_entry

definition stored :: "index_entry \<Rightarrow> stored_entry" where
  "stored m =
     \<lparr>s_id = Some (m_id m), s_updatedAt = Time (m_updatedAt m),
      s_others = [(''title'', Text (m_title m)), (''excerpt'', Text (m_excerpt m)),
                  (''cover'', Text (m_cover m)), (''createdAt'', Number (m_createdAt m))]\<rparr>"

subsection \<open>Local storage\<close>

text \<open>
  The three keys of \<^verbatim>\<open>STORAGE_KEYS\<close>. A slot is \<open>None\<close> when the key is not in local
  storage (\<^verbatim>\<open>getItem\<close> returns \<^verbatim>\<open>null\<close>). \<^verbatim>\<open>setItem\<close> is taken to succeed.
\<close>

datatype kind = Drafts | Posts

record local_storage =
  drafts_item :: "content_record list json_text option"
  posts_item :: "content_record list json_text option"
  gh_item :: "gh_settings json_text option"

definition getItem :: "local_storage \<Rightarrow> kind \<Rightarrow> content_record list json_text option" where
  "getItem ls key = (case key of Drafts \<Rightarrow> drafts_item ls | Posts \<Rightarrow> posts_item ls)"

definition setItem :: "local_storage \<Rightarrow> kind \<Rightarrow> content_record list json_text \<Rightarrow> local_storage" where
  "setItem ls key t =
     (case key of Drafts \<Rightarrow> ls\<lparr>drafts_item := Some t\<rparr> | Posts \<Rightarrow> ls\<lparr>posts_item := Some t\<rparr>)"

text \<open>
  \<^verbatim>\<open>try { return JSON.parse(localStorage.getItem(key)) || []; } catch { return []; }\<close>
  \<^verbatim>\<open>JSON.parse(null)\<close> is \<^verbatim>\<open>null\<close>. The result is a JavaScript value: the empty array
  for a missing key, a malformed text or a falsy value, and otherwise whatever the text
  holds.
\<close>

definition loadArray :: "local_storage \<Rightarrow> kind \<Rightarrow> content_record list js_value" where
  "loadArray ls key =
     (case getItem ls key of
        None \<Rightarrow> Val []
      | Some t \<Rightarrow>
          (case JSON_parse t of
             Inl e \<Rightarrow> Val []
           | Inr v \<Rightarrow> (case v of Falsy \<Rightarrow> Val [] | Other \<Rightarrow> Other | Val a \<Rightarrow> Val a)))"

definition saveArray :: "local_storage \<Rightarrow> kind \<Rightarrow> content_record list \<Rightarrow> local_storage" where
  "saveArray ls key arr = setItem ls key (Json (Val arr))"

text \<open>\<^verbatim>\<open>Array.prototype.findIndex\<close>; \<open>None\<close> stands for the result -1.\<close>

fun findIndex :: "('a \<Rightarrow> bool) \<Rightarrow> 'a list \<Rightarrow> nat option" where
  "findIndex P [] = None"
| "findIndex P (x # xs) = (if P x then Some 0 else map_option Suc (findIndex P xs))"

text \<open>
  \<^verbatim>\<open>const idx = arr.findIndex(x => x[idField] === item[idField]);\<close>
  \<^verbatim>\<open>if (idx >= 0) { arr[idx] = item; } else { arr.push(item); } return arr;\<close>
\<close>

definition upsert :: "content_record list \<Rightarrow> content_record \<Rightarrow> content_record list" where
  "upsert arr item =
     (case findIndex (\<lambda>x. id' x = id' item) arr of
        Some idx \<Rightarrow> arr[idx := item]
      | None \<Rightarrow> arr @ [item])"

definition removeById :: "content_record list \<Rightarrow> string \<Rightarrow> content_record list" where
  "removeById arr i = filter (\<lambda>x. id' x \<noteq> i) arr"

subsection \<open>BlogStore\<close>

definition getDrafts :: "local_storage \<Rightarrow> content_record list js_value" where
  "getDrafts ls = loadArray ls Drafts"

definition getPosts :: "local_storage \<Rightarrow> content_record list js_value" where
  "getPosts ls = loadArray ls Posts"

text \<open>\<^verbatim>\<open>this.getPosts().find(p => p.id === id)\<close>; the reader passes
  \<^verbatim>\<open>params.get('id')\<close>, which is \<^verbatim>\<open>null\<close> (\<open>None\<close>) when the address has no id.\<close>

definition getPostById :: "local_storage \<Rightarrow> string option \<Rightarrow> error + content_record option" where
  "getPostById ls i =
     (case as_array (getPosts ls) of
        Inl e \<Rightarrow> Inl e
      | Inr a \<Rightarrow> Inr (find (\<lambda>p. Some (id' p) = i) a))"

definition saveDraft :: "local_storage \<Rightarrow> content_record \<Rightarrow> error + local_storage" where
  "saveDraft ls draft =
     (case as_array (getDrafts ls) of
        Inl e \<Rightarrow> Inl e
      | Inr a \<Rightarrow> Inr (saveArray ls Drafts (upsert a draft)))"

definition deleteDraft :: "local_storage \<Rightarrow> string \<Rightarrow> error + local_storage" where
  "deleteDraft ls i =
     (case as_array (getDrafts ls) of
        Inl e \<Rightarrow> Inl e
      | Inr a \<Rightarrow> Inr (saveArray ls Drafts (removeById a i)))"

definition publish :: "local_storage \<Rightarrow> content_record \<Rightarrow> error + local_storage" where
  "publish ls post =
     (case as_array (getPosts ls) of
        Inl e \<Rightarrow> Inl e
      | Inr a \<Rightarrow> Inr (saveArray ls Posts (upsert a post)))"

definition deletePost :: "local_storage \<Rightarrow> string \<Rightarrow> error + local_storage" where
  "deletePost ls i =
     (case as_array (getPosts ls) of
        Inl e \<Rightarrow> Inl e
      | Inr a \<Rightarrow> Inr (saveArray ls Posts (removeById a i)))"


subsection \<open>GitHub settings\<close>

text \<open>
  \<^verbatim>\<open>try { return JSON.parse(localStorage.getItem(STORAGE_KEYS.gh)) || null; } catch { return null; }\<close>
  A field that is missing from the stored object is falsy like the empty string and is
  modelled by it; a truthy value that is no settings object has none of the fields.
\<close>

definition getGhSettings :: "local_storage \<Rightarrow> gh_settings option" where
  "getGhSettings ls =
     (case gh_item ls of
        None \<Rightarrow> None
      | Some t \<Rightarrow>
          (case JSON_parse t of
             Inl e \<Rightarrow> None
           | Inr v \<Rightarrow>
               (case v of
                  Falsy \<Rightarrow> None
                | Other \<Rightarrow> Some \<lparr>owner = [], repo = [], branch = [], token = []\<rparr>
                | Val s \<Rightarrow> Some s)))"

text \<open>\<^verbatim>\<open>const s = getGhSettings(); return s && s.owner && s.repo && s.branch && s.token;\<close>\<close>

definition hasGhConfig :: "local_storage \<Rightarrow> bool" where
  "hasGhConfig ls =
     (case getGhSettings ls of
        None \<Rightarrow> False
      | Some s \<Rightarrow> owner s \<noteq> [] \<and> repo s \<noteq> [] \<and> branch s \<noteq> [] \<and> token s \<noteq> [])"

subsection \<open>The network\<close>

text \<open>
  A request is what \<^verbatim>\<open>fetch\<close> is called with. The address is kept in its parts: the
  contents API at \<^verbatim>\<open>api.github.com/repos/{owner}/{repo}/{path}\<close> with the token in the
  Authorization header, or the raw host at
  \<^verbatim>\<open>raw.githubusercontent.com/{owner}/{repo}/{branch}/{path}\<close>. The body of a PUT
  carries the commit message, the content (base64 of the JSON text; represented by the
  document it encodes), the branch and, when there is one, the version token
  \<^verbatim>\<open>sha\<close>.
\<close>

datatype document = RecordDoc content_record | IndexDoc "index_item list"

datatype http_method = GET | PUT

record put_body =
  message :: string
  body_content :: document
  body_branch :: string
  sha :: "string option"

record api_request =
  api_owner :: string
  api_repo :: string
  api_token :: string
  api_path :: string
  api_method :: http_method
  api_body :: "put_body option"

record raw_request =
  raw_owner :: string
  raw_repo :: string
  raw_branch :: string
  raw_path :: string

datatype request = Api api_request | Raw raw_request

text \<open>
  A response, as far as the code reads it: \<^verbatim>\<open>res.ok\<close>, \<^verbatim>\<open>res.status\<close>, what
  \<^verbatim>\<open>res.json()\<close> gives (\<open>None\<close> when the body is not JSON and the promise rejects; of
  the parsed data only \<^verbatim>\<open>data && data.sha\<close> is read) and what \<^verbatim>\<open>res.text()\<close> gives.
  \<^verbatim>\<open>fetch\<close> itself rejects when the request cannot be made.
\<close>

datatype api_data = NoSha | Sha string

record response =
  ok :: bool
  status :: nat
  res_json :: "api_data option"
  res_text :: "document json_text"

datatype fetch_result = Rejected | Resolved response

text \<open>
  The remote side is a parameter: any function from a request and the state of the
  outside world to the outcome of \<^verbatim>\<open>fetch\<close> and the next state of the outside world.
\<close>

type_synonym 'w network = "request \<Rightarrow> 'w \<Rightarrow> fetch_result \<times> 'w"

text \<open>
  The state one page runs in: local storage, the outside world, and the requests sent
  so far (kept so that what is written, and that nothing is written, can be stated).
\<close>

record 'w world =
  storage :: local_storage
  server :: 'w
  sent :: "request list"

definition fetch :: "'w network \<Rightarrow> request \<Rightarrow> 'w world \<Rightarrow> fetch_result \<times> 'w world" where
  "fetch net rq w =
     (case net rq (server w) of
        (out, s') \<Rightarrow> (out, w\<lparr>server := s', sent := sent w @ [rq]\<rparr>))"

subsection \<open>GitHubClient\<close>

text \<open>
  \<^verbatim>\<open>request(path, method, body)\<close>: the address and the headers are built from the
  stored settings (\<open>api_call\<close>); with no stored settings \<^verbatim>\<open>s.owner\<close> raises before
  anything is sent; \<^verbatim>\<open>if (!res.ok) throw new Error(...); return res.json();\<close>
\<close>

definition api_call :: "gh_settings \<Rightarrow> string \<Rightarrow> http_method \<Rightarrow> put_body option \<Rightarrow> request" where
  "api_call s path m body =
     Api \<lparr>api_owner = owner s, api_repo = repo s, api_token = token s,
          api_path = path, api_method = m, api_body = body\<rparr>"

definition request ::
  "'w network \<Rightarrow> string \<Rightarrow> http_method \<Rightarrow> put_body option \<Rightarrow> 'w world \<Rightarrow> (error + api_data) \<times> 'w world"
where
  "request net path m body w =
     (case getGhSettings (storage w) of
        None \<Rightarrow> (Inl TypeError, w)
      | Some s \<Rightarrow>
          (case fetch net (api_call s path m body) w of
             (Rejected, w') \<Rightarrow> (Inl NetworkError, w')
           | (Resolved res, w') \<Rightarrow>
               (if \<not> ok res then (Inl (HttpError (status res)), w')
                else (case res_json res of
                        None \<Rightarrow> (Inl SyntaxError, w')
                      | Some d \<Rightarrow> (Inr d, w')))))"

text \<open>
  \<^verbatim>\<open>try { const data = await this.request(`contents/${path}`);\<close>
  \<^verbatim>\<open>      return data && data.sha ? data.sha : null; } catch (e) { return null; // not found }\<close>
\<close>

definition getContentSha :: "'w network \<Rightarrow> string \<Rightarrow> 'w world \<Rightarrow> string option \<times> 'w world" where
  "getContentSha net path w =
     (case request net (''contents/'' @ path) GET None w of
        (Inl e, w') \<Rightarrow> (None, w')
      | (Inr d, w') \<Rightarrow>
          ((case d of NoSha \<Rightarrow> None | Sha h \<Rightarrow> (if h \<noteq> [] then Some h else None)), w'))"

text \<open>
  \<^verbatim>\<open>const s = getGhSettings(); const sha = await this.getContentSha(path);\<close>
  \<^verbatim>\<open>return this.request(`contents/${path}`, 'PUT',\<close>
  \<^verbatim>\<open>    { message, content: base64, branch: s.branch, sha: sha || undefined });\<close>
\<close>

definition putFile ::
  "'w network \<Rightarrow> string \<Rightarrow> document \<Rightarrow> string \<Rightarrow> 'w world \<Rightarrow> (error + api_data) \<times> 'w world"
where
  "putFile net path contentText msg w =
     (case getContentSha net path w of
        (h, w1) \<Rightarrow>
          (case getGhSettings (storage w1) of
             None \<Rightarrow> (Inl TypeError, w1)
           | Some s \<Rightarrow>
               request net (''contents/'' @ path) PUT
                 (Some \<lparr>message = msg, body_content = contentText, body_branch = branch s, sha = h\<rparr>)
                 w1))"

text \<open>\<^verbatim>\<open>if (!res.ok) throw new Error(`GET ${path} ${res.status}`); return res.text();\<close>\<close>

definition raw_call :: "gh_settings \<Rightarrow> string \<Rightarrow> request" where
  "raw_call s path =
     Raw \<lparr>raw_owner = owner s, raw_repo = repo s, raw_branch = branch s, raw_path = path\<rparr>"

definition readRaw :: "'w network \<Rightarrow> string \<Rightarrow> 'w world \<Rightarrow> (error + document json_text) \<times> 'w world" where
  "readRaw net path w =
     (case getGhSettings (storage w) of
        None \<Rightarrow> (Inl TypeError, w)
      | Some s \<Rightarrow>
          (case fetch net (raw_call s path) w of
             (Rejected, w') \<Rightarrow> (Inl NetworkError, w')
           | (Resolved res, w') \<Rightarrow>
               (if \<not> ok res then (Inl (HttpError (status res)), w') else (Inr (res_text res), w'))))"

text \<open>
  \<^verbatim>\<open>const txt = await this.readRaw(path).catch(() => ''); if (!txt) return null;\<close>
  \<^verbatim>\<open>try { return JSON.parse(txt); } catch { return null; }\<close>
  The result \<^verbatim>\<open>null\<close> is the value \<open>Falsy\<close>.
\<close>

definition readJson :: "'w network \<Rightarrow> string \<Rightarrow> 'w world \<Rightarrow> document js_value \<times> 'w world" where
  "readJson net path w =
     (case readRaw net path w of
        (Inl e, w') \<Rightarrow> (Falsy, w')
      | (Inr txt, w') \<Rightarrow>
          (case JSON_parse txt of
             Inl e \<Rightarrow> (Falsy, w')
           | Inr v \<Rightarrow> (v, w')))"

subsection \<open>Saving to GitHub\<close>

definition kind_name :: "kind \<Rightarrow> string" where
  "kind_name k = (case k of Drafts \<Rightarrow> ''drafts'' | Posts \<Rightarrow> ''posts'')"

text \<open>
  \<^verbatim>\<open>existing.filter(x => x.id !== meta.id)\<close>: the elements are visited in order, and
  reading \<^verbatim>\<open>x.id\<close> of a \<^verbatim>\<open>null\<close> element raises.
\<close>

fun filter_out :: "string \<Rightarrow> index_item list \<Rightarrow> error + stored_entry list" where
  "filter_out i [] = Inr []"
| "filter_out i (NullItem # xs) = Inl TypeError"
| "filter_out i (Item x # xs) =
     (case filter_out i xs of
        Inl e \<Rightarrow> Inl e
      | Inr ys \<Rightarrow> Inr (if s_id x \<noteq> Some i then x # ys else ys))"

text \<open>
  \<^verbatim>\<open>(x.updatedAt||0)\<close> as the subtraction reads it (\<open>None\<close>: not a number), and the
  comparison \<^verbatim>\<open>(a,b) => (b.updatedAt||0)-(a.updatedAt||0)\<close> (\<open>None\<close>: the result
  \<^verbatim>\<open>NaN\<close>).
\<close>

definition updatedAt_or_0 :: "stored_entry \<Rightarrow> int option" where
  "updatedAt_or_0 x = (case s_updatedAt x of NoTime \<Rightarrow> Some 0 | Time n \<Rightarrow> Some n | NotANumber \<Rightarrow> None)"

definition compare_updatedAt :: "stored_entry \<Rightarrow> stored_entry \<Rightarrow> int option" where
  "compare_updatedAt a b =
     (case updatedAt_or_0 b of
        None \<Rightarrow> None
      | Some x \<Rightarrow> (case updatedAt_or_0 a of None \<Rightarrow> None | Some y \<Rightarrow> Some (x - y)))"

text \<open>
  \<^verbatim>\<open>Array.prototype.sort\<close> with a comparison function. The sort is stable and reads a
  result \<^verbatim>\<open>NaN\<close> as 0. Where the comparison orders the elements consistently, every
  stable sort returns the same array, the one this insertion sort returns. Where it does
  not (a \<^verbatim>\<open>NaN\<close> between two numbers that differ), the standard leaves the order to
  the implementation; the insertion sort then stands for it.
\<close>

fun insert_sorted :: "('a \<Rightarrow> 'a \<Rightarrow> int option) \<Rightarrow> 'a \<Rightarrow> 'a list \<Rightarrow> 'a list" where
  "insert_sorted cmp x [] = [x]"
| "insert_sorted cmp x (y # ys) =
     (if (case cmp x y of None \<Rightarrow> 0 | Some v \<Rightarrow> v) \<le> 0 then x # y # ys
      else y # insert_sorted cmp x ys)"

definition array_sort :: "('a \<Rightarrow> 'a \<Rightarrow> int option) \<Rightarrow> 'a list \<Rightarrow> 'a list" where
  "array_sort cmp xs = foldr (insert_sorted cmp) xs []"

text \<open>
  \<^verbatim>\<open>const existing = await GitHubClient.readJson(filename) || [];\<close>
  \<^verbatim>\<open>const filtered = existing.filter(x => x.id !== meta.id); filtered.push(meta);\<close>
  \<^verbatim>\<open>filtered.sort((a,b) => (b.updatedAt||0)-(a.updatedAt||0));\<close>
  \<^verbatim>\<open>await GitHubClient.putFile(filename, JSON.stringify(filtered, null, 2), ...);\<close>
  A value that is no array has no \<^verbatim>\<open>filter\<close>, and the call raises.
\<close>

definition upsertIndex ::
  "'w network \<Rightarrow> kind \<Rightarrow> index_entry \<Rightarrow> 'w world \<Rightarrow> (error + unit) \<times> 'w world"
where
  "upsertIndex net k meta w =
     (let filename = kind_name k @ ''/index.json'' in
      case readJson net filename w of
        (v, w1) \<Rightarrow>
          (case (case v of
                   Falsy \<Rightarrow> Inr []
                 | Other \<Rightarrow> Inl TypeError
                 | Val d \<Rightarrow> (case d of IndexDoc xs \<Rightarrow> Inr xs | RecordDoc r \<Rightarrow> Inl TypeError)) of
             Inl e \<Rightarrow> (Inl e, w1)
           | Inr existing \<Rightarrow>
               (case filter_out (m_id meta) existing of
                  Inl e \<Rightarrow> (Inl e, w1)
                | Inr others \<Rightarrow>
                    (let filtered = others @ [stored meta];
                         sorted = array_sort compare_updatedAt filtered
                     in case putFile net filename (IndexDoc (map Item sorted))
                               (''chore: update '' @ kind_name k @ '' index ('' @ m_id meta @ '')'') w1 of
                          (Inl e, w2) \<Rightarrow> (Inl e, w2)
                        | (Inr d, w2) \<Rightarrow> (Inr (), w2)))))"

text \<open>
  \<^verbatim>\<open>const path = `${kind}/${data.id}.json`;\<close>
  \<^verbatim>\<open>await GitHubClient.putFile(path, JSON.stringify(data, null, 2), ...);\<close>
  \<^verbatim>\<open>const meta = { id: data.id, title: data.title, excerpt: data.excerpt, cover: data.cover,\<close>
  \<^verbatim>\<open>               updatedAt: data.updatedAt, createdAt: data.createdAt };\<close>
  \<^verbatim>\<open>await upsertIndex(kind, meta);\<close>
\<close>

definition saveToGitHub ::
  "'w network \<Rightarrow> kind \<Rightarrow> content_record \<Rightarrow> 'w world \<Rightarrow> (error + unit) \<times> 'w world"
where
  "saveToGitHub net k data w =
     (case putFile net (kind_name k @ ''/'' @ id' data @ ''.json'') (RecordDoc data)
             ((if k = Posts then ''feat: publish post'' else ''chore: save draft'')
                @ '' ('' @ id' data @ '')'') w of
        (Inl e, w1) \<Rightarrow> (Inl e, w1)
      | (Inr d, w1) \<Rightarrow>
          upsertIndex net k
            \<lparr>m_id = id' data, m_title = title data, m_excerpt = excerpt data, m_cover = cover data,
             m_updatedAt = updatedAt data, m_createdAt = createdAt data\<rparr> w1)"

subsection \<open>What is said of an index\<close>



text \<open>
  The path a request addresses, in the contents API (where it starts with
  \<^verbatim>\<open>contents/\<close>) or on the raw host; used in statements only.
\<close>

definition request_path :: "request \<Rightarrow> string" where
  "request_path rq = (case rq of Api q \<Rightarrow> api_path q | Raw q \<Rightarrow> raw_path q)"

subsection \<open>The editor page\<close>

text \<open>
  The widgets and variables the handlers read: the title input, the editor's HTML
  (\<^verbatim>\<open>quill.root.innerHTML\<close>) and plain text (\<^verbatim>\<open>quill.getText()\<close>), and the variables
  \<^verbatim>\<open>coverDataUrl\<close> and \<^verbatim>\<open>currentDraftId\<close> (\<open>None\<close> for \<^verbatim>\<open>null\<close>). What a click takes
  from the environment: \<^verbatim>\<open>Date.now()\<close>, and the two base-36 strings \<^verbatim>\<open>generateId\<close>
  joins, \<^verbatim>\<open>Math.random().toString(36).slice(2)\<close> and \<^verbatim>\<open>Date.now().toString(36)\<close>.
\<close>

record editor =
  titleInput :: string
  quill_html :: string
  quill_text :: string
  coverDataUrl :: string
  currentDraftId :: "string option"

record env =
  now :: int
  random36 :: string
  time36 :: string

definition generateId :: "env \<Rightarrow> string" where
  "generateId e = ''p_'' @ random36 e @ time36 e"

text \<open>\<^verbatim>\<open>String.prototype.trim\<close>, on the white space among the characters below 256.\<close>

definition is_space :: "char \<Rightarrow> bool" where
  "is_space c = (c \<in> set [CHR 0x09, CHR 0x0A, CHR 0x0B, CHR 0x0C, CHR 0x0D, CHR 0x20, CHR 0xA0])"

definition trim :: "string \<Rightarrow> string" where
  "trim s = rev (dropWhile is_space (rev (dropWhile is_space s)))"

text \<open>
  \<^verbatim>\<open>content.replace(/<(.|\n)*?>/g, '')\<close>. After a \<^verbatim>\<open><\<close> the lazy group runs to the
  first \<^verbatim>\<open>>\<close>; \<^verbatim>\<open>.\<close> does not match a line terminator and the group adds the line
  feed back, so a carriage return before the \<^verbatim>\<open>>\<close> makes the match fail, and the
  \<^verbatim>\<open><\<close> stays. \<open>tag_end cs\<close> is the text after the tag when one opens right before
  \<open>cs\<close>.
\<close>

fun tag_end :: "string \<Rightarrow> string option" where
  "tag_end [] = None"
| "tag_end (c # cs) =
     (if c = CHR ''>'' then Some cs else if c = CHR 0x0D then None else tag_end cs)"

function strip_tags :: "string \<Rightarrow> string" where
  "strip_tags [] = []"
| "strip_tags (c # cs) =
     (if c = CHR ''<'' then
        (case tag_end cs of
           Some rest \<Rightarrow> strip_tags rest
         | None \<Rightarrow> c # strip_tags cs)
      else c # strip_tags cs)"
  by pat_completeness auto
termination
proof (relation "measure length")
  fix c :: char and cs rest :: string
  assume "tag_end cs = Some rest"
  then have "length rest < length cs"
    by (induction cs) (auto split: if_splits)
  then show "(rest, c # cs) \<in> measure length"
    by simp
qed auto

text \<open>
  The following two follow the words of the specification and are used in statements
  only: the content stripped of markup is the content without its tags, a tag being the
  text from a \<^verbatim>\<open><\<close> to the next \<^verbatim>\<open>>\<close>, whatever stands between the two.
\<close>

fun tag_rest :: "string \<Rightarrow> string option" where
  "tag_rest [] = None"
| "tag_rest (c # cs) = (if c = CHR ''>'' then Some cs else tag_rest cs)"

function strip_markup :: "string \<Rightarrow> string" where
  "strip_markup [] = []"
| "strip_markup (c # cs) =
     (if c = CHR ''<'' then
        (case tag_rest cs of
           Some rest \<Rightarrow> strip_markup rest
         | None \<Rightarrow> c # strip_markup cs)
      else c # strip_markup cs)"
  by pat_completeness auto
termination
proof (relation "measure length")
  fix c :: char and cs rest :: string
  assume "tag_rest cs = Some rest"
  then have "length rest < length cs"
    by (induction cs) (auto split: if_splits)
  then show "(rest, c # cs) \<in> measure length"
    by simp
qed auto

text \<open>
  The character U+2026 that marks a cut excerpt lies outside the characters of HOL
  strings; one character stands for it, so that lengths are those of the code.
\<close>

definition ellipsis :: string where
  "ellipsis = [CHR 0x85]"

text \<open>
  \<^verbatim>\<open>const title = (titleInput.value || '').trim(); const content = quill.root.innerHTML;\<close>
  \<^verbatim>\<open>const plainText = quill.getText().trim();\<close>
  \<^verbatim>\<open>const excerpt = plainText.slice(0, 180) + (plainText.length > 180 ? '...' : '');\<close>
  \<^verbatim>\<open>const now = Date.now();\<close>
  \<^verbatim>\<open>return { id: currentDraftId || generateId(), title, content, cover: coverDataUrl,\<close>
  \<^verbatim>\<open>         excerpt, updatedAt: now, createdAt: now };\<close>
\<close>

definition gatherPostData :: "env \<Rightarrow> editor \<Rightarrow> content_record" where
  "gatherPostData e ed =
     (let plainText = trim (quill_text ed) in
      \<lparr>id' = (case currentDraftId ed of
                None \<Rightarrow> generateId e
              | Some i \<Rightarrow> (if i \<noteq> [] then i else generateId e)),
       title = trim (titleInput ed),
       content = quill_html ed,
       cover = coverDataUrl ed,
       excerpt = take 180 plainText @ (if length plainText > 180 then ellipsis else []),
       updatedAt = now e,
       createdAt = now e\<rparr>)"

text \<open>
  What a handler ends with: an alert with its message, the move to the post's page
  (\<^verbatim>\<open>window.location.href = `post.html?id=...`\<close>), or an exception nobody catches.
  \<^verbatim>\<open>listDrafts\<close> only redraws the list and is left out.
\<close>

datatype outcome = Alert string | Navigated string | Uncaught error

text \<open>The click on "save draft locally".\<close>

definition saveDraftLocal_click :: "env \<Rightarrow> editor \<Rightarrow> 'w world \<Rightarrow> outcome \<times> editor \<times> 'w world" where
  "saveDraftLocal_click e ed w =
     (let data = gatherPostData e ed in
      case saveDraft (storage w) data of
        Inl err \<Rightarrow> (Uncaught err, ed, w)
      | Inr ls \<Rightarrow>
          (Alert ''Draft saved locally'', ed\<lparr>currentDraftId := Some (id' data)\<rparr>,
           w\<lparr>storage := ls\<rparr>))"

text \<open>The click on "save draft to GitHub".\<close>

definition saveDraftGh_click ::
  "'w network \<Rightarrow> env \<Rightarrow> editor \<Rightarrow> 'w world \<Rightarrow> outcome \<times> editor \<times> 'w world"
where
  "saveDraftGh_click net e ed w =
     (if \<not> hasGhConfig (storage w) then (Alert ''Configure GitHub settings first.'', ed, w)
      else
        (let data = gatherPostData e ed in
         case saveToGitHub net Drafts data w of
           (Inl err, w') \<Rightarrow> (Alert ''Failed saving draft to GitHub.'', ed, w')
         | (Inr u, w') \<Rightarrow> (Alert ''Draft saved to GitHub.'', ed, w')))"

text \<open>
  The click on "publish":
  \<^verbatim>\<open>const data = gatherPostData();\<close>
  \<^verbatim>\<open>if (!data.title || !data.content.replace(/<(.|\n)*?>/g, '').trim()) { alert(...); return; }\<close>
  \<^verbatim>\<open>if (hasGhConfig()) { try { await saveToGitHub('posts', data);\<close>
  \<^verbatim>\<open>    BlogStore.deleteDraft(data.id); ... } catch(e) { alert(...); } }\<close>
  \<^verbatim>\<open>else { BlogStore.publish(data); BlogStore.deleteDraft(data.id); ... }\<close>
\<close>

definition publish_click ::
  "'w network \<Rightarrow> env \<Rightarrow> editor \<Rightarrow> 'w world \<Rightarrow> outcome \<times> editor \<times> 'w world"
where
  "publish_click net e ed w =
     (let data = gatherPostData e ed in
      if title data = [] \<or> trim (strip_tags (content data)) = [] then
        (Alert ''Please add a title and some content.'', ed, w)
      else if hasGhConfig (storage w) then
        (case saveToGitHub net Posts data w of
           (Inl err, w1) \<Rightarrow> (Alert ''Failed publishing to GitHub. Check settings/token.'', ed, w1)
         | (Inr u, w1) \<Rightarrow>
             (case deleteDraft (storage w1) (id' data) of
                Inl err \<Rightarrow> (Alert ''Failed publishing to GitHub. Check settings/token.'', ed, w1)
              | Inr ls \<Rightarrow> (Navigated (id' data), ed, w1\<lparr>storage := ls\<rparr>)))
      else
        (case publish (storage w) data of
           Inl err \<Rightarrow> (Uncaught err, ed, w)
         | Inr ls1 \<Rightarrow>
             (case deleteDraft ls1 (id' data) of
                Inl err \<Rightarrow> (Uncaught err, ed, w\<lparr>storage := ls1\<rparr>)
              | Inr ls2 \<Rightarrow> (Navigated (id' data), ed, w\<lparr>storage := ls2\<rparr>))))"

subsection \<open>The reader page\<close>

text \<open>
  \<^verbatim>\<open>let post = null; const s = getGhSettings();\<close>
  \<^verbatim>\<open>if (s && s.owner && s.repo && s.branch) {\<close>
  \<^verbatim>\<open>    try { const txt = await GitHubClient.readRaw(`posts/${id}.json`);\<close>
  \<^verbatim>\<open>          post = JSON.parse(txt); } catch {} }\<close>
  \<^verbatim>\<open>if (!post) post = BlogStore.getPostById(id);\<close>
  \<^verbatim>\<open>if (!post) { ...show the "empty" element...; return; }\<close>
  The result is the value of \<^verbatim>\<open>post\<close> the page goes on to show: \<open>Falsy\<close> when there is
  none. A missing id is spliced into the path as \<^verbatim>\<open>null\<close>.
\<close>

definition id_text :: "string option \<Rightarrow> string" where
  "id_text i = (case i of None \<Rightarrow> ''null'' | Some s \<Rightarrow> s)"

definition reads_remote :: "local_storage \<Rightarrow> bool" where
  "reads_remote ls =
     (case getGhSettings ls of
        None \<Rightarrow> False
      | Some s \<Rightarrow> owner s \<noteq> [] \<and> repo s \<noteq> [] \<and> branch s \<noteq> [])"

definition resolve ::
  "'w network \<Rightarrow> string option \<Rightarrow> 'w world \<Rightarrow> (error + document js_value) \<times> 'w world"
where
  "resolve net i w =
     (case (if reads_remote (storage w) then
              (case readRaw net (''posts/'' @ id_text i @ ''.json'') w of
                 (Inl e, w') \<Rightarrow> (Falsy, w')
               | (Inr txt, w') \<Rightarrow>
                   (case JSON_parse txt of
                      Inl e \<Rightarrow> (Falsy, w')
                    | Inr v \<Rightarrow> (v, w')))
            else (Falsy, w)) of
        (post, w1) \<Rightarrow>
          (case post of
             Falsy \<Rightarrow>
               (case getPostById (storage w1) i of
                  Inl e \<Rightarrow> (Inl e, w1)
                | Inr None \<Rightarrow> (Inr Falsy, w1)
                | Inr (Some p) \<Rightarrow> (Inr (Val (RecordDoc p)), w1))
           | Other \<Rightarrow> (Inr Other, w1)
           | Val d \<Rightarrow> (Inr (Val d), w1)))"

subsection \<open>A repository behind the network\<close>

text \<open>
  Modelled from the spec: the remote content API is a service outside this repository;
  sections 4.2 and 6 of the specification describe it. A path holds a file with its
  version token; the lookup of a path gives its token or 404; a PUT creates a missing
  path, overwrites an existing path when it carries that path's current token, and is
  refused with 409 (Conflict) otherwise; the raw host gives a file's text or 404. A
  list of faults says what happens to the coming requests before they reach the
  repository: \<open>Offline\<close> (no connection), \<open>Refuse code\<close> (answered with that status)
  or \<open>Pass\<close>. The general theorems below hold for every network; this one serves the
  concrete runs.
\<close>

datatype fault = Offline | Refuse nat | Pass

record repository =
  files :: "(string \<times> string \<times> document json_text) list"
  writes :: nat
  faults :: "fault list"

definition failure :: "nat \<Rightarrow> response" where
  "failure code = \<lparr>ok = False, status = code, res_json = Some NoSha, res_text = Malformed\<rparr>"

definition version_token :: "nat \<Rightarrow> string" where
  "version_token n = CHR ''v'' # replicate n (CHR ''i'')"

definition store_file :: "string \<Rightarrow> document \<Rightarrow> repository \<Rightarrow> repository" where
  "store_file p d st =
     st\<lparr>files := (p, version_token (writes st), Json (Val d)) # filter (\<lambda>f. fst f \<noteq> p) (files st),
        writes := Suc (writes st)\<rparr>"

definition serve :: "request \<Rightarrow> repository \<Rightarrow> fetch_result \<times> repository" where
  "serve rq st =
     (case rq of
        Raw q \<Rightarrow>
          (case map_of (files st) (raw_path q) of
             None \<Rightarrow> (Resolved (failure 404), st)
           | Some f \<Rightarrow>
               (Resolved \<lparr>ok = True, status = 200, res_json = None, res_text = snd f\<rparr>, st))
      | Api q \<Rightarrow>
          (if take 9 (api_path q) \<noteq> ''contents/'' then (Resolved (failure 404), st)
           else
             (let p = drop 9 (api_path q) in
              case api_method q of
                GET \<Rightarrow>
                  (case map_of (files st) p of
                     None \<Rightarrow> (Resolved (failure 404), st)
                   | Some f \<Rightarrow>
                       (Resolved \<lparr>ok = True, status = 200, res_json = Some (Sha (fst f)),
                                  res_text = Json Other\<rparr>, st))
              | PUT \<Rightarrow>
                  (case api_body q of
                     None \<Rightarrow> (Resolved (failure 422), st)
                   | Some b \<Rightarrow>
                       (case map_of (files st) p of
                          None \<Rightarrow>
                            (Resolved \<lparr>ok = True, status = 201, res_json = Some NoSha,
                                       res_text = Json Other\<rparr>, store_file p (body_content b) st)
                        | Some f \<Rightarrow>
                            (if sha b = Some (fst f) then
                               (Resolved \<lparr>ok = True, status = 200, res_json = Some NoSha,
                                          res_text = Json Other\<rparr>, store_file p (body_content b) st)
                             else (Resolved (failure 409), st)))))))"

definition github :: "repository network" where
  "github rq st =
     (case faults st of
        [] \<Rightarrow> serve rq st
      | f # fs \<Rightarrow>
          (case f of
             Offline \<Rightarrow> (Rejected, st\<lparr>faults := fs\<rparr>)
           | Refuse code \<Rightarrow> (Resolved (failure code), st\<lparr>faults := fs\<rparr>)
           | Pass \<Rightarrow> serve rq (st\<lparr>faults := fs\<rparr>)))"

subsection \<open>Sample data for the concrete runs\<close>

definition sample :: "string \<Rightarrow> string \<Rightarrow> int \<Rightarrow> content_record" where
  "sample i t n =
     \<lparr>id' = i, title = t, content = ''<p>Hi</p>'', cover = [], excerpt = ''Hi'',
      updatedAt = n, createdAt = n\<rparr>"

definition entry :: "string \<Rightarrow> int \<Rightarrow> index_entry" where
  "entry i n =
     \<lparr>m_id = i, m_title = ''T'', m_excerpt = ''Hi'', m_cover = [], m_updatedAt = n,
      m_createdAt = n\<rparr>"

definition listed :: "string \<Rightarrow> timestamp \<Rightarrow> stored_entry" where
  "listed i t = \<lparr>s_id = Some i, s_updatedAt = t, s_others = [(''title'', Text ''T'')]\<rparr>"

definition settings :: "string \<Rightarrow> gh_settings" where
  "settings tok = \<lparr>owner = ''me'', repo = ''blog'', branch = ''main'', token = tok\<rparr>"

definition local_only :: local_storage where
  "local_only = \<lparr>drafts_item = None, posts_item = None, gh_item = None\<rparr>"

definition configured :: "string \<Rightarrow> local_storage" where
  "configured tok = \<lparr>drafts_item = None, posts_item = None, gh_item = Some (Json (Val (settings tok)))\<rparr>"

definition empty_repo :: repository where
  "empty_repo = \<lparr>files = [], writes = 0, faults = []\<rparr>"

definition start :: "local_storage \<Rightarrow> repository \<Rightarrow> repository world" where
  "start ls st = \<lparr>storage = ls, server = st, sent = []\<rparr>"

definition writing :: "string \<Rightarrow> string option \<Rightarrow> editor" where
  "writing t i =
     \<lparr>titleInput = t, quill_html = ''<p>Hi</p>'', quill_text = ''Hi'', coverDataUrl = [],
      currentDraftId = i\<rparr>"

definition at_time :: "int \<Rightarrow> env" where
  "at_time n = \<lparr>now = n, random36 = ''k3'', time36 = ''x9''\<rparr>"


definition two_drafts :: "local_storage \<Rightarrow> local_storage" where
  "two_drafts ls =
     ls\<lparr>drafts_item := Some (Json (Val [sample ''p_1'' ''Hello'' 100, sample ''p_2'' ''Other'' 200]))\<rparr>"






text \<open>
  A session on the editor page in local mode: a new draft is saved, then published, and
  then, the editor still holding the draft, saved once more.
\<close>

definition saved :: "outcome \<times> editor \<times> repository world" where
  "saved = saveDraftLocal_click (at_time 100) (writing ''Hello'' None) (start local_only empty_repo)"



text \<open>
  An editor that holds one image and no text, the address of the image with a carriage
  return in it: \<^verbatim>\<open><p><img src="a\rb"></p>\<close>.
\<close>

definition image_only :: editor where
  "image_only =
     \<lparr>titleInput = ''Hello'',
      quill_html = ''<p><img src='' @ [CHR 0x22, CHR ''a'', CHR 0x0D, CHR ''b'', CHR 0x22] @ ''></p>'',
      quill_text = [], coverDataUrl = [], currentDraftId = None\<rparr>"

text \<open>
  Local storage whose post collection is the text \<^verbatim>\<open>{"a":1}\<close>: valid JSON, a truthy
  value, no array.
\<close>

definition posts_no_array :: "local_storage \<Rightarrow> local_storage" where
  "posts_no_array ls = ls\<lparr>posts_item := Some (Json Other)\<rparr>"

section \<open>Properties\<close>

subsection \<open>Unfolding the model on concrete runs\<close>

lemmas store_defs = getItem_def setItem_def loadArray_def saveArray_def JSON_parse_def as_array_def
  upsert_def removeById_def getDrafts_def getPosts_def getPostById_def saveDraft_def deleteDraft_def
  publish_def deletePost_def getGhSettings_def hasGhConfig_def

lemmas client_defs = fetch_def api_call_def raw_call_def request_def getContentSha_def putFile_def
  readRaw_def readJson_def kind_name_def stored_def updatedAt_or_0_def compare_updatedAt_def
  array_sort_def upsertIndex_def saveToGitHub_def

lemmas page_defs = generateId_def is_space_def trim_def ellipsis_def gatherPostData_def
  saveDraftLocal_click_def saveDraftGh_click_def publish_click_def id_text_def reads_remote_def
  resolve_def

lemmas repo_defs = failure_def version_token_def store_file_def serve_def github_def

lemmas sample_defs = sample_def entry_def listed_def settings_def local_only_def configured_def empty_repo_def
  start_def writing_def at_time_def

lemma start_simps:
  "storage (start ls st) = ls" "server (start ls st) = st" "sent (start ls st) = []"
  by (simp_all add: start_def)

lemma storage_samples:
  "getGhSettings local_only = None"
  "getGhSettings (configured tok) = Some (settings tok)"
  "hasGhConfig (configured tok) = (tok \<noteq> [])"
  "\<not> hasGhConfig local_only"
  "posts_item (configured tok) = None"
  "posts_item local_only = None"
  by (simp_all add: sample_defs store_defs)


subsection \<open>The local record store\<close>

lemma upsert_Nil: "upsert [] R = [R]" by (simp add: upsert_def)

lemma upsert_Cons: "upsert (x # xs) R = (if id' x = id' R then R # xs else x # upsert xs R)"
  by (auto simp: upsert_def split: option.splits)

lemma upsert_upsert:
  "id' R' = id' R \<Longrightarrow> upsert (upsert c R) R' = upsert c R'"
  by (induction c) (auto simp: upsert_Nil upsert_Cons)

lemma set_map_upsert: "set (map id' (upsert c R)) = insert (id' R) (set (map id' c))"
  by (induction c) (auto simp: upsert_Nil upsert_Cons)

lemma upsert_ids_distinct:
  "distinct (map id' c) \<Longrightarrow> distinct (map id' (upsert c R))"
proof (induction c)
  case Nil
  then show ?case by (simp add: upsert_Nil)
next
  case (Cons x xs)
  then show ?case using set_map_upsert[of xs R]
    by (auto simp: upsert_Cons)
qed

lemma upsert_filter_one:
  "distinct (map id' c) \<Longrightarrow> filter (\<lambda>x. id' x = id' R) (upsert c R) = [R]"
proof (induction c)
  case Nil
  then show ?case by (simp add: upsert_Nil)
next
  case (Cons x xs)
  then show ?case
    by (auto simp: upsert_Cons filter_empty_conv image_iff)
qed

lemma upsert_filter_mem: "R \<in> set (upsert c R)"
  by (induction c) (auto simp: upsert_Nil upsert_Cons)

lemma length_upsert_present:
  "id' R \<in> set (map id' c) \<Longrightarrow> length (upsert c R) = length c"
  by (induction c) (auto simp: upsert_Nil upsert_Cons)

lemma upsert_absent: "id' R \<notin> set (map id' c) \<Longrightarrow> upsert c R = c @ [R]"
  by (induction c) (auto simp: upsert_Nil upsert_Cons)



lemma removeById_absent: "i \<notin> set (map id' (removeById a i))"
  by (auto simp: removeById_def)

lemma loadArray_saveArray: "loadArray (saveArray ls key a) key = Val a"
  by (cases key) (simp_all add: loadArray_def saveArray_def setItem_def getItem_def JSON_parse_def)

lemma loadArray_saveArray_other:
  "key' \<noteq> key \<Longrightarrow> loadArray (saveArray ls key a) key' = loadArray ls key'"
  by (cases key; cases key') (simp_all add: loadArray_def saveArray_def setItem_def getItem_def)

lemma as_array_Inr: "as_array v = Inr a \<longleftrightarrow> v = Val a"
  by (cases v) (simp_all add: as_array_def)

lemma deleteDraft_Inr:
  "deleteDraft ls i = Inr ls' \<Longrightarrow>
     \<exists>a. getDrafts ls = Val a \<and> ls' = saveArray ls Drafts (removeById a i)"
  by (auto simp: deleteDraft_def as_array_Inr split: sum.splits)

lemma publish_Inr:
  "publish ls post = Inr ls' \<Longrightarrow>
     \<exists>a. getPosts ls = Val a \<and> ls' = saveArray ls Posts (upsert a post)"
  by (auto simp: publish_def as_array_Inr split: sum.splits)

lemma posts_item_deleteDraft: "deleteDraft ls i = Inr ls' \<Longrightarrow> posts_item ls' = posts_item ls"
  by (auto simp: deleteDraft_def saveArray_def setItem_def split: sum.splits)







text \<open>
  Claim C8, as amended. For every collection and all records \<open>R\<close> and \<open>R'\<close> with the same
  identifier, upserting \<open>R\<close> and then \<open>R'\<close> gives what upserting \<open>R'\<close> alone gives:
  \<open>R'\<close> stands where \<open>R\<close> stood and the second upsert adds no entry. When the
  collection holds at most one record per identifier, so does the result, and \<open>R'\<close> is
  its only record with that identifier. Upserting a record whose identifier is absent
  appends it.
\<close>

theorem upsert_twice:
  assumes "id' R' = id' R"
  shows "upsert (upsert c R) R' = upsert c R'
       \<and> length (upsert (upsert c R) R') = length (upsert c R)
       \<and> R' \<in> set (upsert (upsert c R) R')
       \<and> (distinct (map id' c) \<longrightarrow>
            distinct (map id' (upsert (upsert c R) R'))
          \<and> filter (\<lambda>x. id' x = id' R) (upsert (upsert c R) R') = [R'])
       \<and> (id' R \<notin> set (map id' c) \<longrightarrow> upsert c R = c @ [R])"
proof -
  have eq: "upsert (upsert c R) R' = upsert c R'"
    using assms by (rule upsert_upsert)
  have len: "length (upsert (upsert c R) R') = length (upsert c R)"
    using assms length_upsert_present[where R=R' and c="upsert c R"] set_map_upsert[where c=c and R=R] by simp
  have mem: "R' \<in> set (upsert (upsert c R) R')"
    by (rule upsert_filter_mem)
  have dist: "distinct (map id' c) \<longrightarrow>
            distinct (map id' (upsert (upsert c R) R'))
          \<and> filter (\<lambda>x. id' x = id' R) (upsert (upsert c R) R') = [R']"
    using assms upsert_ids_distinct[where c=c and R=R'] upsert_filter_one[where c=c and R=R'] by (simp add: eq)
  have app: "id' R \<notin> set (map id' c) \<longrightarrow> upsert c R = c @ [R]"
    using upsert_absent[where R=R and c=c] by blast
  from eq len mem dist app show ?thesis by blast
qed

text \<open>
  The law at a collection of two records, once replacing and once appending.
\<close>

theorem upsert_twice_witness:
  "id' (sample ''b'' ''S'' 4) = id' (sample ''b'' ''R'' 3)
   \<and> distinct (map id' [sample ''a'' ''A'' 1, sample ''b'' ''B'' 2])
   \<and> upsert (upsert [sample ''a'' ''A'' 1, sample ''b'' ''B'' 2] (sample ''b'' ''R'' 3)) (sample ''b'' ''S'' 4)
       = [sample ''a'' ''A'' 1, sample ''b'' ''S'' 4]
   \<and> filter (\<lambda>x. id' x = id' (sample ''b'' ''R'' 3))
        (upsert (upsert [sample ''a'' ''A'' 1, sample ''b'' ''B'' 2] (sample ''b'' ''R'' 3)) (sample ''b'' ''S'' 4))
       = [sample ''b'' ''S'' 4]
   \<and> id' (sample ''c'' ''R'' 3) \<notin> set (map id' [sample ''a'' ''A'' 1, sample ''b'' ''B'' 2])
   \<and> upsert [sample ''a'' ''A'' 1, sample ''b'' ''B'' 2] (sample ''c'' ''R'' 3)
       = [sample ''a'' ''A'' 1, sample ''b'' ''B'' 2] @ [sample ''c'' ''R'' 3]"
proof -
  let ?c = "[sample ''a'' ''A'' 1, sample ''b'' ''B'' 2]"
  let ?R = "sample ''b'' ''R'' 3" and ?S = "sample ''b'' ''S'' 4" and ?N = "sample ''c'' ''R'' 3"
  have same: "id' ?S = id' ?R"
    by (simp add: sample_def)
  have dist: "distinct (map id' ?c)"
    by (simp add: sample_def)
  have absent: "id' ?N \<notin> set (map id' ?c)"
    by (simp add: sample_def)
  have val: "upsert ?c ?S = [sample ''a'' ''A'' 1, ?S]"
    by (simp add: upsert_def sample_def)
  note law = upsert_twice [OF same, of ?c]
  from law have "upsert (upsert ?c ?R) ?S = upsert ?c ?S"
    by (rule conjunct1)
  then have one: "upsert (upsert ?c ?R) ?S = [sample ''a'' ''A'' 1, ?S]"
    using val by (rule trans)
  from law dist have two: "filter (\<lambda>x. id' x = id' ?R) (upsert (upsert ?c ?R) ?S) = [?S]"
    by blast
  from upsert_twice [where R = ?N and R' = ?N and c = ?c, OF refl] absent have three: "upsert ?c ?N = ?c @ [?N]"
    by blast
  from same dist one two absent three show ?thesis
    by (intro conjI)
qed

text \<open>
  Claim C8 as stated fails for a collection that already holds two records with the
  identifier: \<^verbatim>\<open>findIndex\<close> finds the first one only, so after both upserts the second one
  is still there and the identifier occurs twice.
\<close>

theorem upsert_duplicate_counterexample:
  "id' (sample ''x'' ''S'' 4) = id' (sample ''x'' ''R'' 3)
   \<and> upsert (upsert [sample ''x'' ''A'' 1, sample ''x'' ''B'' 2] (sample ''x'' ''R'' 3)) (sample ''x'' ''S'' 4)
       = [sample ''x'' ''S'' 4, sample ''x'' ''B'' 2]
   \<and> map id' (upsert (upsert [sample ''x'' ''A'' 1, sample ''x'' ''B'' 2] (sample ''x'' ''R'' 3)) (sample ''x'' ''S'' 4))
       = [''x'', ''x'']"
  by (simp add: upsert_def sample_def)

text \<open>
  What \<^verbatim>\<open>loadArray\<close> does guard against: a missing key, a text that does not parse and a
  falsy value all give the empty array, and a stored array comes back as it is.
\<close>

lemma loadArray_defensive:
  "getItem ls key = None \<or> getItem ls key = Some Malformed \<or> getItem ls key = Some (Json Falsy)
     \<Longrightarrow> loadArray ls key = Val []"
  by (auto simp: loadArray_def JSON_parse_def)

lemma loadArray_array: "getItem ls key = Some (Json (Val a)) \<Longrightarrow> loadArray ls key = Val a"
  by (simp add: loadArray_def JSON_parse_def)

text \<open>
  Claim C9 fails where the stored text is valid JSON for a truthy value that is no array
  (an object, a number, a string): \<^verbatim>\<open>JSON.parse(...) || []\<close> hands the value on, so
  \<^verbatim>\<open>getDrafts\<close> does not return a sequence, and the array methods \<^verbatim>\<open>saveDraft\<close> and
  \<^verbatim>\<open>deleteDraft\<close> call on it raise a \<^verbatim>\<open>TypeError\<close> out of the store.
\<close>

theorem loadArray_passes_non_array:
  "loadArray \<lparr>drafts_item = Some (Json Other), posts_item = None, gh_item = None\<rparr> Drafts = Other
   \<and> saveDraft \<lparr>drafts_item = Some (Json Other), posts_item = None, gh_item = None\<rparr>
         (sample ''p_1'' ''Hello'' 100) = Inl TypeError
   \<and> deleteDraft \<lparr>drafts_item = Some (Json Other), posts_item = None, gh_item = None\<rparr> ''p_1''
       = Inl TypeError"
  by (simp add: loadArray_def getItem_def JSON_parse_def saveDraft_def deleteDraft_def getDrafts_def
      as_array_def)

subsection \<open>Time stamps\<close>

lemma gatherPostData_createdAt: "createdAt (gatherPostData e ed) = now e \<and> updatedAt (gatherPostData e ed) = now e"
  by (simp add: gatherPostData_def Let_def)

text \<open>
  Claim C1 fails on the code: \<^verbatim>\<open>gatherPostData\<close> sets \<^verbatim>\<open>createdAt\<close> to the current time
  on every call, and the upsert replaces the whole stored record. A draft first saved at
  time 100 and saved again at time 200 under the same identifier is stored with
  \<^verbatim>\<open>createdAt\<close> 200.
\<close>

theorem createdAt_overwritten_on_second_save:
  "saveDraftLocal_click (at_time 100) (writing ''Hello'' None) (start local_only empty_repo)
     = (Alert ''Draft saved locally'', writing ''Hello'' (Some ''p_k3x9''),
        start (local_only\<lparr>drafts_item := Some (Json (Val [sample ''p_k3x9'' ''Hello'' 100]))\<rparr>) empty_repo)
   \<and> saveDraftLocal_click (at_time 200) (writing ''Hello'' (Some ''p_k3x9''))
        (start (local_only\<lparr>drafts_item := Some (Json (Val [sample ''p_k3x9'' ''Hello'' 100]))\<rparr>) empty_repo)
     = (Alert ''Draft saved locally'', writing ''Hello'' (Some ''p_k3x9''),
        start (local_only\<lparr>drafts_item := Some (Json (Val [sample ''p_k3x9'' ''Hello'' 200]))\<rparr>) empty_repo)
   \<and> createdAt (sample ''p_k3x9'' ''Hello'' 100) = 100
   \<and> createdAt (sample ''p_k3x9'' ''Hello'' 200) = 200"
  by (simp add: saveDraftLocal_click_def gatherPostData_def generateId_def at_time_def writing_def
      start_def local_only_def sample_def saveDraft_def getDrafts_def loadArray_def getItem_def
      JSON_parse_def as_array_def saveArray_def setItem_def upsert_def trim_def is_space_def Let_def)

subsection \<open>What the client leaves alone, and what it sends\<close>

lemma fetch_conv:
  "fetch net rq w =
     (fst (net rq (server w)), w\<lparr>server := snd (net rq (server w)), sent := sent w @ [rq]\<rparr>)"
  by (simp add: fetch_def split: prod.splits)

lemma storage_request: "request net path m body w = (r, w') \<Longrightarrow> storage w' = storage w"
  by (auto simp: request_def fetch_conv split: option.splits fetch_result.splits if_splits)

lemma storage_getContentSha: "getContentSha net path w = (h, w') \<Longrightarrow> storage w' = storage w"
  by (auto simp: getContentSha_def split: prod.splits sum.splits dest: storage_request)

lemma storage_putFile: "putFile net path d msg w = (r, w') \<Longrightarrow> storage w' = storage w"
  by (auto simp: putFile_def split: prod.splits option.splits
      dest!: storage_request storage_getContentSha)

lemma storage_readRaw: "readRaw net path w = (r, w') \<Longrightarrow> storage w' = storage w"
  by (auto simp: readRaw_def fetch_conv split: option.splits fetch_result.splits if_splits)

lemma storage_readJson: "readJson net path w = (v, w') \<Longrightarrow> storage w' = storage w"
  by (auto simp: readJson_def split: prod.splits sum.splits dest: storage_readRaw)

lemma storage_upsertIndex: "upsertIndex net k meta w = (r, w') \<Longrightarrow> storage w' = storage w"
  by (auto simp: upsertIndex_def Let_def
      split: prod.splits sum.splits js_value.splits document.splits
      dest!: storage_putFile storage_readJson)

lemma storage_saveToGitHub: "saveToGitHub net k data w = (r, w') \<Longrightarrow> storage w' = storage w"
  by (auto simp: saveToGitHub_def split: prod.splits sum.splits
      dest!: storage_putFile storage_upsertIndex)

lemma request_conv:
  assumes "getGhSettings (storage w) = Some s"
  shows "request net path m body w =
     ((case fst (net (api_call s path m body) (server w)) of
         Rejected \<Rightarrow> Inl NetworkError
       | Resolved res \<Rightarrow>
           (if \<not> ok res then Inl (HttpError (status res))
            else (case res_json res of None \<Rightarrow> Inl SyntaxError | Some d \<Rightarrow> Inr d))),
      w\<lparr>server := snd (net (api_call s path m body) (server w)),
        sent := sent w @ [api_call s path m body]\<rparr>)"
  using assms
  by (simp add: request_def fetch_conv split: fetch_result.splits option.splits)

lemma getContentSha_conv:
  assumes "getGhSettings (storage w) = Some s"
  shows "getContentSha net path w =
     ((case fst (net (api_call s (''contents/'' @ path) GET None) (server w)) of
         Rejected \<Rightarrow> None
       | Resolved res \<Rightarrow>
           (if \<not> ok res then None
            else (case res_json res of
                    None \<Rightarrow> None
                  | Some NoSha \<Rightarrow> None
                  | Some (Sha h) \<Rightarrow> (if h \<noteq> [] then Some h else None)))),
      w\<lparr>server := snd (net (api_call s (''contents/'' @ path) GET None) (server w)),
        sent := sent w @ [api_call s (''contents/'' @ path) GET None]\<rparr>)"
  by (simp add: getContentSha_def request_conv[OF assms]
      split: fetch_result.splits option.splits api_data.splits)

lemma readRaw_conv:
  assumes "getGhSettings (storage w) = Some s"
  shows "readRaw net path w =
     ((case fst (net (raw_call s path) (server w)) of
         Rejected \<Rightarrow> Inl NetworkError
       | Resolved res \<Rightarrow>
           (if \<not> ok res then Inl (HttpError (status res)) else Inr (res_text res))),
      w\<lparr>server := snd (net (raw_call s path) (server w)),
        sent := sent w @ [raw_call s path]\<rparr>)"
  using assms
  by (simp add: readRaw_def fetch_conv split: fetch_result.splits)


lemma sent_putFile:
  assumes "getGhSettings (storage w) = Some s"
  shows "sent (snd (putFile net path d msg w)) =
     sent w @ [api_call s (''contents/'' @ path) GET None,
               api_call s (''contents/'' @ path) PUT
                 (Some \<lparr>message = msg, body_content = d, body_branch = branch s,
                        sha = fst (getContentSha net path w)\<rparr>)]"
proof -
  obtain h w1 where w1: "getContentSha net path w = (h, w1)"
    by (cases "getContentSha net path w")
  have st: "getGhSettings (storage w1) = Some s"
    using storage_getContentSha[OF w1] assms by simp
  have s1: "sent w1 = sent w @ [api_call s (''contents/'' @ path) GET None]"
    using w1 by (auto simp: getContentSha_conv[OF assms])
  show ?thesis
    by (simp add: putFile_def w1 st s1 request_conv[OF st])
qed

lemma sent_request_grows: "request net path m body w = (r, w') \<Longrightarrow> \<exists>rs. sent w' = sent w @ rs"
  by (auto simp: request_def fetch_conv split: option.splits fetch_result.splits if_splits)

lemma sent_getContentSha_grows: "getContentSha net path w = (h, w') \<Longrightarrow> \<exists>rs. sent w' = sent w @ rs"
  by (auto simp: getContentSha_def split: prod.splits sum.splits dest: sent_request_grows)

lemma sent_putFile_grows: "putFile net path d msg w = (r, w') \<Longrightarrow> \<exists>rs. sent w' = sent w @ rs"
  by (auto simp: putFile_def split: prod.splits option.splits
      dest!: sent_request_grows sent_getContentSha_grows)

lemma sent_readRaw_grows: "readRaw net path w = (r, w') \<Longrightarrow> \<exists>rs. sent w' = sent w @ rs"
  by (auto simp: readRaw_def fetch_conv split: option.splits fetch_result.splits if_splits)

lemma sent_readJson_grows: "readJson net path w = (v, w') \<Longrightarrow> \<exists>rs. sent w' = sent w @ rs"
  by (auto simp: readJson_def split: prod.splits sum.splits dest: sent_readRaw_grows)

lemma sent_upsertIndex_grows: "upsertIndex net k meta w = (r, w') \<Longrightarrow> \<exists>rs. sent w' = sent w @ rs"
  by (auto simp: upsertIndex_def Let_def
      split: prod.splits sum.splits js_value.splits document.splits
      dest!: sent_putFile_grows sent_readJson_grows)

lemma sent_saveToGitHub:
  assumes "getGhSettings (storage w) = Some s"
    and "saveToGitHub net k data w = (r, w')"
  shows "\<exists>rs. sent w' =
            sent w @ api_call s (''contents/'' @ kind_name k @ ''/'' @ id' data @ ''.json'') GET None # rs"
proof -
  let ?path = "kind_name k @ ''/'' @ id' data @ ''.json''"
  let ?msg = "(if k = Posts then ''feat: publish post'' else ''chore: save draft'') @ '' ('' @ id' data @ '')''"
  obtain r1 w1 where w1: "putFile net ?path (RecordDoc data) ?msg w = (r1, w1)"
    by (cases "putFile net ?path (RecordDoc data) ?msg w")
  from sent_putFile[OF assms(1), of net ?path "RecordDoc data" ?msg] w1
  obtain q where s1: "sent w1 = sent w @ [api_call s (''contents/'' @ ?path) GET None, q]"
    by simp
  show ?thesis
  proof (cases r1)
    case (Inl e)
    with assms(2) w1 have "w' = w1" by (simp add: saveToGitHub_def)
    with s1 show ?thesis by simp
  next
    case (Inr d)
    with assms(2) w1 have "upsertIndex net k
            \<lparr>m_id = id' data, m_title = title data, m_excerpt = excerpt data, m_cover = cover data,
             m_updatedAt = updatedAt data, m_createdAt = createdAt data\<rparr> w1 = (r, w')"
      by (simp add: saveToGitHub_def)
    from sent_upsertIndex_grows[OF this] s1 show ?thesis by auto
  qed
qed

lemma sent_resolve:
  "sent (snd (resolve net i w)) =
     (case getGhSettings (storage w) of
        None \<Rightarrow> sent w
      | Some s \<Rightarrow>
          (if owner s \<noteq> [] \<and> repo s \<noteq> [] \<and> branch s \<noteq> []
           then sent w @ [raw_call s (''posts/'' @ id_text i @ ''.json'')] else sent w))"
proof (cases "getGhSettings (storage w)")
  case None
  then show ?thesis
    by (simp add: resolve_def reads_remote_def getPostById_def
        split: sum.splits option.splits)
next
  case (Some s)
  show ?thesis
    by (simp add: resolve_def reads_remote_def Some readRaw_conv[OF Some] getPostById_def
        split: sum.splits option.splits fetch_result.splits js_value.splits)
qed





lemma paths_none: "\<exists>rs. sent w = sent w @ rs \<and> request_path ` set rs \<subseteq> A"
  by (rule exI[of _ "[]"]) simp







subsection \<open>The version token\<close>

text \<open>
  Claim C10. Whenever the lookup request of \<^verbatim>\<open>getContentSha\<close> fails, because
  \<^verbatim>\<open>fetch\<close> rejects or because the answer has a non-success status, whatever the
  repository holds at the path, \<^verbatim>\<open>getContentSha\<close> returns no token, and the
  \<^verbatim>\<open>putFile\<close> that looked the token up sends its PUT without one.
\<close>

theorem getContentSha_failure_unversioned_put:
  assumes settings: "getGhSettings (storage w) = Some s"
    and failed:
      "fst (net (api_call s (''contents/'' @ path) GET None) (server w)) = Rejected
       \<or> (\<exists>res. fst (net (api_call s (''contents/'' @ path) GET None) (server w)) = Resolved res
               \<and> \<not> ok res)"
  shows "fst (getContentSha net path w) = None
       \<and> sent (snd (putFile net path d msg w)) =
           sent w @ [api_call s (''contents/'' @ path) GET None,
                     api_call s (''contents/'' @ path) PUT
                       (Some \<lparr>message = msg, body_content = d, body_branch = branch s,
                              sha = None\<rparr>)]"
proof -
  have none: "fst (getContentSha net path w) = None"
    using failed by (auto simp: getContentSha_conv[OF settings])
  then show ?thesis
    using sent_putFile[OF settings, of net path d msg] by simp
qed

text \<open>
  A run: the path exists in the repository, the lookup is answered with status 403, the
  PUT goes out without a token and the repository refuses it with 409.
\<close>

theorem getContentSha_failure_unversioned_put_witness:
  "getGhSettings (storage (start (configured ''tok'')
       \<lparr>files = [(''posts/p_1.json'', ''v'', Json (Val (RecordDoc (sample ''p_1'' ''Hello'' 100))))],
        writes = 1, faults = [Refuse 403]\<rparr>)) = Some (settings ''tok'')
   \<and> map_of [(''posts/p_1.json'', ''v'', Json (Val (RecordDoc (sample ''p_1'' ''Hello'' 100))))]
        ''posts/p_1.json'' \<noteq> None
   \<and> fst (github (api_call (settings ''tok'') (''contents/'' @ ''posts/p_1.json'') GET None)
        \<lparr>files = [(''posts/p_1.json'', ''v'', Json (Val (RecordDoc (sample ''p_1'' ''Hello'' 100))))],
         writes = 1, faults = [Refuse 403]\<rparr>) = Resolved (failure 403)
   \<and> \<not> ok (failure 403)
   \<and> sent (snd (putFile github ''posts/p_1.json'' (RecordDoc (sample ''p_1'' ''Hello'' 200)) ''feat: publish post (p_1)''
        (start (configured ''tok'')
          \<lparr>files = [(''posts/p_1.json'', ''v'', Json (Val (RecordDoc (sample ''p_1'' ''Hello'' 100))))],
           writes = 1, faults = [Refuse 403]\<rparr>))) =
       [api_call (settings ''tok'') (''contents/'' @ ''posts/p_1.json'') GET None,
        api_call (settings ''tok'') (''contents/'' @ ''posts/p_1.json'') PUT
          (Some \<lparr>message = ''feat: publish post (p_1)'',
                 body_content = RecordDoc (sample ''p_1'' ''Hello'' 200),
                 body_branch = ''main'', sha = None\<rparr>)]
   \<and> fst (putFile github ''posts/p_1.json'' (RecordDoc (sample ''p_1'' ''Hello'' 200)) ''feat: publish post (p_1)''
        (start (configured ''tok'')
          \<lparr>files = [(''posts/p_1.json'', ''v'', Json (Val (RecordDoc (sample ''p_1'' ''Hello'' 100))))],
           writes = 1, faults = [Refuse 403]\<rparr>)) = Inl (HttpError 409)"
proof -
  let ?repo = "\<lparr>files = [(''posts/p_1.json'', ''v'', Json (Val (RecordDoc (sample ''p_1'' ''Hello'' 100))))],
        writes = 1, faults = [Refuse 403]\<rparr>"
  let ?w = "start (configured ''tok'') ?repo"
  have settings: "getGhSettings (storage ?w) = Some (settings ''tok'')"
    by (simp add: sample_defs store_defs)
  have there: "map_of [(''posts/p_1.json'', ''v'', Json (Val (RecordDoc (sample ''p_1'' ''Hello'' 100))))]
        ''posts/p_1.json'' \<noteq> None"
    by simp
  have answer: "fst (github (api_call (settings ''tok'') (''contents/'' @ ''posts/p_1.json'') GET None) ?repo)
      = Resolved (failure 403)"
    by (simp add: github_def)
  have refused: "\<not> ok (failure 403)"
    by (simp add: failure_def)
  have failed: "fst (github (api_call (settings ''tok'') (''contents/'' @ ''posts/p_1.json'') GET None) (server ?w)) = Rejected
       \<or> (\<exists>res. fst (github (api_call (settings ''tok'') (''contents/'' @ ''posts/p_1.json'') GET None) (server ?w)) = Resolved res
               \<and> \<not> ok res)"
    using answer refused by (simp add: start_def)
  have put: "sent (snd (putFile github ''posts/p_1.json'' (RecordDoc (sample ''p_1'' ''Hello'' 200)) ''feat: publish post (p_1)'' ?w)) =
       [api_call (settings ''tok'') (''contents/'' @ ''posts/p_1.json'') GET None,
        api_call (settings ''tok'') (''contents/'' @ ''posts/p_1.json'') PUT
          (Some \<lparr>message = ''feat: publish post (p_1)'',
                 body_content = RecordDoc (sample ''p_1'' ''Hello'' 200),
                 body_branch = ''main'', sha = None\<rparr>)]"
    using getContentSha_failure_unversioned_put [where net = github and w = ?w
        and s = "settings ''tok''" and path = "''posts/p_1.json''"
        and d = "RecordDoc (sample ''p_1'' ''Hello'' 200)" and msg = "''feat: publish post (p_1)''",
        OF settings failed]
    by (simp add: start_def settings_def)
  have conflict: "fst (putFile github ''posts/p_1.json'' (RecordDoc (sample ''p_1'' ''Hello'' 200)) ''feat: publish post (p_1)'' ?w)
      = Inl (HttpError 409)"
    by (simp add: sample_defs store_defs client_defs repo_defs)
  from settings there answer refused put conflict show ?thesis
    by (intro conjI)
qed

subsection \<open>Publishing\<close>

text \<open>
  Where the content holds no carriage return, the handler's expression strips exactly
  the tags, and a record with an empty title or with nothing but markup is turned away
  with nothing read, written or sent.
\<close>

lemma tag_end_no_return: "CHR 0x0D \<notin> set s \<Longrightarrow> tag_end s = tag_rest s"
  by (induction s) auto

lemma tag_rest_subset: "tag_rest s = Some r \<Longrightarrow> set r \<subseteq> set s"
  by (induction s) (auto split: if_splits)

lemma strip_tags_strip_markup: "CHR 0x0D \<notin> set s \<Longrightarrow> strip_tags s = strip_markup s"
proof (induction s rule: strip_markup.induct)
  case 1
  then show ?case by simp
next
  case (2 c cs)
  have same: "tag_end cs = tag_rest cs"
    using "2.prems" by (simp add: tag_end_no_return)
  show ?case
  proof (cases "c = CHR ''<''")
    case False
    with 2 show ?thesis by simp
  next
    case True
    show ?thesis
    proof (cases "tag_rest cs")
      case None
      with 2 True same show ?thesis by simp
    next
      case (Some r)
      then have "CHR 0x0D \<notin> set r"
        using "2.prems" tag_rest_subset by fastforce
      with 2 True same Some show ?thesis by simp
    qed
  qed
qed

lemma publish_click_rejects:
  assumes "title (gatherPostData e ed) = []
         \<or> CHR 0x0D \<notin> set (content (gatherPostData e ed))
            \<and> trim (strip_markup (content (gatherPostData e ed))) = []"
  shows "publish_click net e ed w = (Alert ''Please add a title and some content.'', ed, w)"
  using assms by (auto simp: publish_click_def Let_def strip_tags_strip_markup)

text \<open>
  Claim C5 fails on the code for content that is markup only and has a carriage return
  inside a tag. The group \<^verbatim>\<open>(.|\n)\<close> of the handler's expression is there to let a tag
  run over a line break, and it leaves out the carriage return, so such a tag is not
  stripped, the test finds text, and the record is published. With the title
  \<^verbatim>\<open>Hello\<close> and the content \<^verbatim>\<open><p><img src="a\rb"></p>\<close>, which stripped of markup is
  empty, the click on publish writes the post to local storage in local mode and sends
  it to the repository in remote mode.
\<close>

theorem publish_click_accepts_image_only_content:
  "title (gatherPostData (at_time 200) image_only) = ''Hello''
   \<and> trim (strip_markup (content (gatherPostData (at_time 200) image_only))) = []
   \<and> trim (strip_tags (content (gatherPostData (at_time 200) image_only)))
       = ''<img src='' @ [CHR 0x22, CHR ''a'', CHR 0x0D, CHR ''b'', CHR 0x22] @ ''>''
   \<and> fst (publish_click github (at_time 200) image_only (start local_only empty_repo)) = Navigated ''p_k3x9''
   \<and> getPosts (storage (snd (snd (publish_click github (at_time 200) image_only (start local_only empty_repo)))))
       = Val [gatherPostData (at_time 200) image_only]
   \<and> fst (publish_click github (at_time 200) image_only (start (configured ''tok'') empty_repo))
       = Navigated ''p_k3x9''
   \<and> map fst (files (server (snd (snd (publish_click github (at_time 200) image_only
         (start (configured ''tok'') empty_repo))))))
       = [''posts/index.json'', ''posts/p_k3x9.json'']"
  by (simp add: image_only_def page_defs sample_defs store_defs client_defs repo_defs Let_def)

text \<open>
  Claim C7. When the click on publish succeeds (the page moves on to the post), in
  remote mode as in local mode, the local draft collection afterwards is the one from
  before without the records that carry the published identifier.
\<close>

theorem publish_click_deletes_local_draft:
  assumes "publish_click net e ed w = (Navigated i, ed', w')"
  shows "i = id' (gatherPostData e ed)
       \<and> (\<exists>a. getDrafts (storage w) = Val a
              \<and> getDrafts (storage w') = Val (removeById a i)
              \<and> i \<notin> set (map id' (removeById a i)))"
proof (cases "hasGhConfig (storage w)")
  case True
  with assms obtain u w1 ls where
    save: "saveToGitHub net Posts (gatherPostData e ed) w = (Inr u, w1)" and
    del: "deleteDraft (storage w1) (id' (gatherPostData e ed)) = Inr ls" and
    res: "i = id' (gatherPostData e ed)" "w' = w1\<lparr>storage := ls\<rparr>"
    by (auto simp: publish_click_def Let_def split: if_splits prod.splits sum.splits)
  from storage_saveToGitHub[OF save] have same: "storage w1 = storage w" .
  from deleteDraft_Inr[OF del] same obtain a where
    a: "getDrafts (storage w) = Val a" "ls = saveArray (storage w) Drafts (removeById a i)"
    using res(1) by auto
  have "getDrafts (storage w') = Val (removeById a i)"
    using res(2) a(2) by (simp add: getDrafts_def loadArray_saveArray)
  with a(1) res(1) removeById_absent[of i a] show ?thesis by blast
next
  case False
  with assms obtain ls1 ls2 where
    pub: "publish (storage w) (gatherPostData e ed) = Inr ls1" and
    del: "deleteDraft ls1 (id' (gatherPostData e ed)) = Inr ls2" and
    res: "i = id' (gatherPostData e ed)" "w' = w\<lparr>storage := ls2\<rparr>"
    by (auto simp: publish_click_def Let_def split: if_splits prod.splits sum.splits)
  from publish_Inr[OF pub] obtain p where
    p: "ls1 = saveArray (storage w) Posts (upsert p (gatherPostData e ed))" by blast
  then have same: "getDrafts ls1 = getDrafts (storage w)"
    by (simp add: getDrafts_def loadArray_saveArray_other)
  from deleteDraft_Inr[OF del] same obtain a where
    a: "getDrafts (storage w) = Val a" "ls2 = saveArray ls1 Drafts (removeById a i)"
    using res(1) by auto
  have "getDrafts (storage w') = Val (removeById a i)"
    using res(2) a(2) by (simp add: getDrafts_def loadArray_saveArray)
  with a(1) res(1) removeById_absent[of i a] show ?thesis by blast
qed

text \<open>
  Two runs from a local draft collection of two drafts, one in local mode and one with
  GitHub configured: the published draft is gone, the other one stays.
\<close>

theorem publish_click_deletes_local_draft_witness:
  "fst (publish_click github (at_time 300) (writing ''Hello'' (Some ''p_1''))
          (start (two_drafts local_only) empty_repo)) = Navigated ''p_1''
   \<and> getDrafts (storage (snd (snd (publish_click github (at_time 300) (writing ''Hello'' (Some ''p_1''))
          (start (two_drafts local_only) empty_repo))))) = Val [sample ''p_2'' ''Other'' 200]
   \<and> fst (publish_click github (at_time 300) (writing ''Hello'' (Some ''p_1''))
          (start (two_drafts (configured ''tok'')) empty_repo)) = Navigated ''p_1''
   \<and> getDrafts (storage (snd (snd (publish_click github (at_time 300) (writing ''Hello'' (Some ''p_1''))
          (start (two_drafts (configured ''tok'')) empty_repo))))) = Val [sample ''p_2'' ''Other'' 200]"
proof -
  let ?e = "at_time 300" and ?ed = "writing ''Hello'' (Some ''p_1'')"
  let ?w1 = "start (two_drafts local_only) empty_repo"
  let ?w2 = "start (two_drafts (configured ''tok'')) empty_repo"
  have before: "getDrafts (two_drafts ls) = Val [sample ''p_1'' ''Hello'' 100, sample ''p_2'' ''Other'' 200]" for ls
    by (simp add: two_drafts_def store_defs)
  have rest: "removeById [sample ''p_1'' ''Hello'' 100, sample ''p_2'' ''Other'' 200] ''p_1''
      = [sample ''p_2'' ''Other'' 200]"
    by (simp add: removeById_def sample_def)
  have o1: "fst (publish_click github ?e ?ed ?w1) = Navigated ''p_1''"
    by (simp add: page_defs sample_defs store_defs two_drafts_def Let_def)
  have o2: "fst (publish_click github ?e ?ed ?w2) = Navigated ''p_1''"
    by (simp add: page_defs sample_defs store_defs client_defs repo_defs two_drafts_def Let_def)
  have run1: "publish_click github ?e ?ed ?w1
      = (Navigated ''p_1'', fst (snd (publish_click github ?e ?ed ?w1)), snd (snd (publish_click github ?e ?ed ?w1)))"
    using o1 by (metis prod.collapse)
  have run2: "publish_click github ?e ?ed ?w2
      = (Navigated ''p_1'', fst (snd (publish_click github ?e ?ed ?w2)), snd (snd (publish_click github ?e ?ed ?w2)))"
    using o2 by (metis prod.collapse)
  have d1: "getDrafts (storage (snd (snd (publish_click github ?e ?ed ?w1)))) = Val [sample ''p_2'' ''Other'' 200]"
    using publish_click_deletes_local_draft [OF run1] rest
    by (auto simp: start_simps before)
  have d2: "getDrafts (storage (snd (snd (publish_click github ?e ?ed ?w2)))) = Val [sample ''p_2'' ''Other'' 200]"
    using publish_click_deletes_local_draft [OF run2] rest
    by (auto simp: start_simps before)
  from o1 d1 o2 d2 show ?thesis
    by (intro conjI)
qed









subsection \<open>Which backend an operation targets\<close>

lemma hasGhConfig_iff:
  "hasGhConfig ls \<longleftrightarrow>
     (\<exists>s. getGhSettings ls = Some s \<and> owner s \<noteq> [] \<and> repo s \<noteq> [] \<and> branch s \<noteq> [] \<and> token s \<noteq> [])"
  by (simp add: hasGhConfig_def split: option.splits)

lemma publish_click_local:
  assumes "\<not> hasGhConfig (storage w)"
  shows "sent (snd (snd (publish_click net e ed w))) = sent w
       \<and> server (snd (snd (publish_click net e ed w))) = server w"
  using assms by (simp add: publish_click_def Let_def split: sum.splits)

lemma publish_click_remote_posts:
  assumes "hasGhConfig (storage w)"
  shows "posts_item (storage (snd (snd (publish_click net e ed w)))) = posts_item (storage w)"
  using assms
  by (auto simp: publish_click_def Let_def split: sum.splits prod.splits
      dest!: storage_saveToGitHub posts_item_deleteDraft)

lemma publish_click_remote_sends:
  assumes "hasGhConfig (storage w)"
    and "title (gatherPostData e ed) \<noteq> []"
    and "trim (strip_tags (content (gatherPostData e ed))) \<noteq> []"
  shows "sent (snd (snd (publish_click net e ed w))) \<noteq> sent w"
proof -
  from assms(1) obtain s where s: "getGhSettings (storage w) = Some s"
    by (auto simp: hasGhConfig_iff)
  obtain r w1 where w1: "saveToGitHub net Posts (gatherPostData e ed) w = (r, w1)"
    by (cases "saveToGitHub net Posts (gatherPostData e ed) w")
  from sent_saveToGitHub[OF s w1] have grow: "sent w1 \<noteq> sent w" by auto
  show ?thesis
    using assms w1 grow
    by (auto simp: publish_click_def Let_def split: sum.splits)
qed

lemma saveDraftGh_click_remote_sends:
  assumes "hasGhConfig (storage w)"
  shows "sent (snd (snd (saveDraftGh_click net e ed w))) \<noteq> sent w"
proof -
  from assms(1) obtain s where s: "getGhSettings (storage w) = Some s"
    by (auto simp: hasGhConfig_iff)
  obtain r w1 where w1: "saveToGitHub net Drafts (gatherPostData e ed) w = (r, w1)"
    by (cases "saveToGitHub net Drafts (gatherPostData e ed) w")
  from sent_saveToGitHub[OF s w1] have grow: "sent w1 \<noteq> sent w" by auto
  show ?thesis
    using assms w1 grow
    by (auto simp: saveDraftGh_click_def Let_def split: sum.splits)
qed

text \<open>
  Claim C2, as amended. \<^verbatim>\<open>hasGhConfig\<close> holds exactly when owner, repository, branch and
  token are all non-empty, and it decides where saving and publishing go: without it
  saving a draft to GitHub is refused and publishing sends nothing and leaves the remote
  side alone; with it both send requests and publishing writes no local post. The reader
  sends its request exactly when owner, repository and branch are non-empty; it does not
  look at the token.
\<close>

theorem remote_mode_selection:
  "hasGhConfig (storage w) =
     (\<exists>s. getGhSettings (storage w) = Some s
          \<and> owner s \<noteq> [] \<and> repo s \<noteq> [] \<and> branch s \<noteq> [] \<and> token s \<noteq> [])
   \<and> (\<not> hasGhConfig (storage w) \<longrightarrow>
         saveDraftGh_click net e ed w = (Alert ''Configure GitHub settings first.'', ed, w)
       \<and> sent (snd (snd (publish_click net e ed w))) = sent w
       \<and> server (snd (snd (publish_click net e ed w))) = server w)
   \<and> (hasGhConfig (storage w) \<longrightarrow>
         sent (snd (snd (saveDraftGh_click net e ed w))) \<noteq> sent w
       \<and> posts_item (storage (snd (snd (publish_click net e ed w)))) = posts_item (storage w)
       \<and> (title (gatherPostData e ed) \<noteq> [] \<and> trim (strip_tags (content (gatherPostData e ed))) \<noteq> []
            \<longrightarrow> sent (snd (snd (publish_click net e ed w))) \<noteq> sent w))
   \<and> (sent (snd (resolve net i w)) \<noteq> sent w \<longleftrightarrow>
         (\<exists>s. getGhSettings (storage w) = Some s
              \<and> owner s \<noteq> [] \<and> repo s \<noteq> [] \<and> branch s \<noteq> []))"
proof -
  have complete: "hasGhConfig (storage w) =
     (\<exists>s. getGhSettings (storage w) = Some s
          \<and> owner s \<noteq> [] \<and> repo s \<noteq> [] \<and> branch s \<noteq> [] \<and> token s \<noteq> [])"
    by (rule hasGhConfig_iff)
  have local: "\<not> hasGhConfig (storage w) \<longrightarrow>
         saveDraftGh_click net e ed w = (Alert ''Configure GitHub settings first.'', ed, w)
       \<and> sent (snd (snd (publish_click net e ed w))) = sent w
       \<and> server (snd (snd (publish_click net e ed w))) = server w"
    using publish_click_local[of w net e ed] by (simp add: saveDraftGh_click_def)
  have remote: "hasGhConfig (storage w) \<longrightarrow>
         sent (snd (snd (saveDraftGh_click net e ed w))) \<noteq> sent w
       \<and> posts_item (storage (snd (snd (publish_click net e ed w)))) = posts_item (storage w)
       \<and> (title (gatherPostData e ed) \<noteq> [] \<and> trim (strip_tags (content (gatherPostData e ed))) \<noteq> []
            \<longrightarrow> sent (snd (snd (publish_click net e ed w))) \<noteq> sent w)"
    using saveDraftGh_click_remote_sends[of w net e ed] publish_click_remote_posts[of w net e ed]
      publish_click_remote_sends[of w e ed net]
    by blast
  have reader: "sent (snd (resolve net i w)) \<noteq> sent w \<longleftrightarrow>
         (\<exists>s. getGhSettings (storage w) = Some s
              \<and> owner s \<noteq> [] \<and> repo s \<noteq> [] \<and> branch s \<noteq> [])"
    by (simp add: sent_resolve split: option.splits)
  from complete local remote reader show ?thesis by blast
qed

text \<open>
  Runs with complete settings, with no settings, and with settings that lack the token.
\<close>

theorem remote_mode_selection_witness:
  "hasGhConfig (storage (start (configured ''tok'') empty_repo))
   \<and> sent (snd (snd (publish_click github (at_time 100) (writing ''Hello'' None)
        (start (configured ''tok'') empty_repo)))) \<noteq> []
   \<and> posts_item (storage (snd (snd (publish_click github (at_time 100) (writing ''Hello'' None)
        (start (configured ''tok'') empty_repo))))) = None
   \<and> \<not> hasGhConfig (storage (start local_only empty_repo))
   \<and> sent (snd (snd (publish_click github (at_time 100) (writing ''Hello'' None)
        (start local_only empty_repo)))) = []
   \<and> sent (snd (resolve github (Some ''p_1'') (start local_only empty_repo))) = []
   \<and> sent (snd (resolve github (Some ''p_1'') (start (configured []) empty_repo))) \<noteq> []"
proof -
  let ?remote = "start (configured ''tok'') empty_repo"
  let ?local = "start local_only empty_repo"
  let ?reader = "start (configured []) empty_repo"
  note sel = remote_mode_selection [where net = github and e = "at_time 100"
      and ed = "writing ''Hello'' None" and i = "Some ''p_1''"]
  have on: "hasGhConfig (storage ?remote)"
    by (simp add: start_simps storage_samples)
  have off: "\<not> hasGhConfig (storage ?local)"
    by (simp add: start_simps storage_samples)
  have valid: "title (gatherPostData (at_time 100) (writing ''Hello'' None)) \<noteq> []
      \<and> trim (strip_tags (content (gatherPostData (at_time 100) (writing ''Hello'' None)))) \<noteq> []"
    by (simp add: page_defs sample_defs Let_def)
  have three: "getGhSettings (storage ?reader) = Some (settings [])
      \<and> owner (settings []) \<noteq> [] \<and> repo (settings []) \<noteq> [] \<and> branch (settings []) \<noteq> []"
    by (simp add: start_simps storage_samples settings_def)
  from sel [of ?remote] on valid
  have a: "sent (snd (snd (publish_click github (at_time 100) (writing ''Hello'' None) ?remote))) \<noteq> []
      \<and> posts_item (storage (snd (snd (publish_click github (at_time 100) (writing ''Hello'' None) ?remote)))) = None"
    by (simp add: start_simps storage_samples)
  from sel [of ?local] off
  have b: "sent (snd (snd (publish_click github (at_time 100) (writing ''Hello'' None) ?local))) = []
      \<and> sent (snd (resolve github (Some ''p_1'') ?local)) = []"
    by (simp add: start_simps storage_samples)
  from sel [of ?reader] three
  have c: "sent (snd (resolve github (Some ''p_1'') ?reader)) \<noteq> []"
    by (simp add: start_simps)
  from on a off b c show ?thesis by blast
qed

text \<open>
  Claim C2 as stated fails for the reader: with owner, repository and branch set and the
  token empty the configuration is not complete, yet the remote read is attempted.
\<close>

theorem resolve_without_token_counterexample:
  "\<not> hasGhConfig (storage (start (configured []) empty_repo))
   \<and> sent (snd (resolve github (Some ''p_1'') (start (configured []) empty_repo)))
       = [raw_call (settings []) ''posts/p_1.json'']"
  by (simp add: sample_defs store_defs client_defs page_defs repo_defs)

subsection \<open>The reader\<close>

text \<open>
  When the reader does not read remotely, or its remote read fails because \<^verbatim>\<open>fetch\<close>
  rejects (network error), the answer has a non-success status (not found) or the text
  does not parse, the result is that of the local lookup \<^verbatim>\<open>getPostById\<close>; and when the
  local post collection is a sequence that holds no record with the identifier, the
  result is no post.
\<close>

lemma resolve_local_lookup:
  assumes "reads_remote (storage w) \<longrightarrow>
     (\<exists>s. getGhSettings (storage w) = Some s
        \<and> (fst (net (raw_call s (''posts/'' @ id_text i @ ''.json'')) (server w)) = Rejected
           \<or> (\<exists>res. fst (net (raw_call s (''posts/'' @ id_text i @ ''.json'')) (server w)) = Resolved res
                   \<and> (\<not> ok res \<or> res_text res = Malformed))))"
  shows "fst (resolve net i w) =
           (case getPostById (storage w) i of
              Inl e \<Rightarrow> Inl e
            | Inr None \<Rightarrow> Inr Falsy
            | Inr (Some p) \<Rightarrow> Inr (Val (RecordDoc p)))"
proof (cases "reads_remote (storage w)")
  case False
  then show ?thesis
    by (simp add: resolve_def split: sum.splits option.splits)
next
  case True
  with assms obtain s where s: "getGhSettings (storage w) = Some s"
    and failed: "fst (net (raw_call s (''posts/'' @ id_text i @ ''.json'')) (server w)) = Rejected
         \<or> (\<exists>res. fst (net (raw_call s (''posts/'' @ id_text i @ ''.json'')) (server w)) = Resolved res
                 \<and> (\<not> ok res \<or> res_text res = Malformed))"
    by blast
  from failed show ?thesis
    by (auto simp: resolve_def True readRaw_conv[OF s] JSON_parse_def
        split: sum.splits option.splits if_splits json_text.splits)
qed

lemma resolve_absent:
  assumes "reads_remote (storage w) \<longrightarrow>
     (\<exists>s. getGhSettings (storage w) = Some s
        \<and> (fst (net (raw_call s (''posts/'' @ id_text i @ ''.json'')) (server w)) = Rejected
           \<or> (\<exists>res. fst (net (raw_call s (''posts/'' @ id_text i @ ''.json'')) (server w)) = Resolved res
                   \<and> (\<not> ok res \<or> res_text res = Malformed))))"
    and "getPosts (storage w) = Val a" and "find (\<lambda>p. Some (id' p) = i) a = None"
  shows "fst (resolve net i w) = Inr Falsy"
  using resolve_local_lookup[where net = net and w = w and i = i, OF assms(1)] assms(2,3)
  by (simp add: getPostById_def as_array_def)

text \<open>
  Claim C6 fails on the code where the stored post collection is valid JSON for a truthy
  value that is no array, the case \<^verbatim>\<open>loadArray\<close> lets through (see claim C9): the
  identifier is in neither backend, the fallback is taken as the claim says, and
  \<^verbatim>\<open>this.getPosts().find\<close> raises a \<^verbatim>\<open>TypeError\<close> that nothing catches, in local mode
  and, the remote file missing, with GitHub configured.
\<close>

theorem resolve_raises_on_posts_no_array:
  "getPosts (posts_no_array local_only) = Other
   \<and> fst (resolve github (Some ''p_9'') (start (posts_no_array local_only) empty_repo)) = Inl TypeError
   \<and> fst (github (raw_call (settings ''tok'') ''posts/p_9.json'') empty_repo) = Resolved (failure 404)
   \<and> fst (resolve github (Some ''p_9'') (start (posts_no_array (configured ''tok'')) empty_repo))
       = Inl TypeError"
  by (simp add: posts_no_array_def page_defs sample_defs store_defs client_defs repo_defs Let_def)

subsection \<open>The index\<close>


lemma filter_out_null: "NullItem \<in> set xs \<Longrightarrow> filter_out i xs = Inl TypeError"
proof (induction xs)
  case Nil
  then show ?case by simp
next
  case (Cons x xs)
  show ?case
  proof (cases x)
    case NullItem
    then show ?thesis by simp
  next
    case (Item e)
    with Cons show ?thesis by simp
  qed
qed

















end
